theory Spec2Isabelle
  imports Complex_Main "HOL-Library.List_Lexorder" "HOL-Library.Char_ord" "HOL-Library.Sublist"
begin

section \<open>Python strings\<close>

text \<open>
  Python's \<^verbatim>\<open>sep.join(xs)\<close>: the elements of \<open>xs\<close> with \<open>sep\<close> between
  neighbours, nothing before the first and nothing after the last.
\<close>

fun join :: "string \<Rightarrow> string list \<Rightarrow> string" where
  "join sep [] = []"
| "join sep [x] = x"
| "join sep (x # y # ys) = x @ sep @ join sep (y # ys)"

text \<open>
  Python's \<^verbatim>\<open>str(n)\<close> for a non-negative integer: its decimal digits, most significant
  first, no leading zero.
\<close>

definition digit :: "nat \<Rightarrow> char" where
  "digit d = ''0123456789'' ! d"

function str_nat :: "nat \<Rightarrow> string" where
  "str_nat n = (if n < 10 then [digit n] else str_nat (n div 10) @ [digit (n mod 10)])"
  by pat_completeness auto
termination
  by (relation "measure (\<lambda>n. n)") auto

declare str_nat.simps [simp del]

text \<open>The apostrophe that the messages of the validators put around names.\<close>

definition apostrophe :: string where
  "apostrophe = [CHR 0x27]"

section \<open>scripts/validator.py\<close>

subsection \<open>Exceptions, files, verdicts\<close>

text \<open>
  The three exception classes that \<^verbatim>\<open>validate_file\<close> tells apart, each carrying the
  text \<^verbatim>\<open>str(e)\<close>. \<open>Exception\<close> stands for every other subclass of Python's
  \<^verbatim>\<open>Exception\<close>. A call that raises returns \<open>Inl\<close>.
\<close>

datatype exn = FileNotFoundError string | YAMLError string | Exception string

fun str_exn :: "exn \<Rightarrow> string" where
  "str_exn (FileNotFoundError m) = m"
| "str_exn (YAMLError m) = m"
| "str_exn (Exception m) = m"

text \<open>
  The file system maps a path to the text of the file there. \<^verbatim>\<open>open(path, 'r')\<close>
  followed by reading raises \<^verbatim>\<open>FileNotFoundError\<close> when there is no file.
\<close>

type_synonym filesystem = "string \<rightharpoonup> string"

definition open_read :: "filesystem \<Rightarrow> string \<Rightarrow> exn + string" where
  "open_read fs path =
     (case fs path of
        None \<Rightarrow> Inl (FileNotFoundError (''[Errno 2] No such file or directory: '' @ apostrophe @ path @ apostrophe))
      | Some text \<Rightarrow> Inr text)"

type_synonym verdict = "bool \<times> string list"

subsection \<open>Schema errors and their formatting\<close>

text \<open>
  A \<^verbatim>\<open>jsonschema.ValidationError\<close> as far as the validators read it: the absolute path
  of the offending value (mapping keys and sequence indices, outermost first) and the
  library's message.
\<close>

datatype path_elem = Key string | Index nat

fun str_path_elem :: "path_elem \<Rightarrow> string" where
  "str_path_elem (Key k) = k"
| "str_path_elem (Index i) = str_nat i"

record validation_error =
  absolute_path :: "path_elem list"
  message :: string

text \<open>
  \<^verbatim>\<open>_format_validation_error\<close>, the same method in \<^verbatim>\<open>AgentValidator\<close> and
  \<^verbatim>\<open>RecipeValidator\<close>. An empty path is falsy in Python.
\<close>

definition format_validation_error :: "validation_error \<Rightarrow> string" where
  "format_validation_error error =
     (if absolute_path error \<noteq> [] then
        (let path = join ''.'' (map str_path_elem (absolute_path error))
         in ''Field '' @ apostrophe @ path @ apostrophe @ '': '' @ message error)
      else message error)"

subsection \<open>AgentValidator\<close>

text \<open>
  The schema validator of the jsonschema library is a parameter: \<open>iter_errors data\<close> is
  the list of violations that \<^verbatim>\<open>self.validator.iter_errors(data)\<close> yields, or the
  exception it raises. So is \<^verbatim>\<open>yaml.safe_load\<close>, from the text of a file to the
  parsed document or a \<^verbatim>\<open>YAMLError\<close>.
\<close>

definition validate_data :: "('d \<Rightarrow> exn + validation_error list) \<Rightarrow> 'd \<Rightarrow> verdict" where
  "validate_data iter_errors data =
     (case iter_errors data of
        Inr found \<Rightarrow>
          (let errors = map format_validation_error found
           in (length errors = 0, errors))
      | Inl e \<Rightarrow> (False, [''Validation error: '' @ str_exn e]))"

text \<open>
  The three \<^verbatim>\<open>except\<close> clauses of \<^verbatim>\<open>validate_file\<close>, in the order of the source.
  Every exception is turned into a verdict.
\<close>

fun handle_exn :: "string \<Rightarrow> exn \<Rightarrow> exn + verdict" where
  "handle_exn yaml_path (YAMLError m) = Inr (False, [''YAML parsing error: '' @ m])"
| "handle_exn yaml_path (FileNotFoundError m) = Inr (False, [''File not found: '' @ yaml_path])"
| "handle_exn yaml_path (Exception m) = Inr (False, [''Validation error: '' @ m])"

definition agent_validate_file_try ::
  "filesystem \<Rightarrow> (string \<Rightarrow> exn + 'd) \<Rightarrow> ('d \<Rightarrow> exn + validation_error list) \<Rightarrow> string \<Rightarrow> exn + verdict" where
  "agent_validate_file_try fs safe_load iter_errors yaml_path =
     (case open_read fs yaml_path of
        Inl e \<Rightarrow> Inl e
      | Inr text \<Rightarrow>
          (case safe_load text of
             Inl e \<Rightarrow> Inl e
           | Inr data \<Rightarrow>
               (case iter_errors data of
                  Inl e \<Rightarrow> Inl e
                | Inr found \<Rightarrow>
                    (let errors = map format_validation_error found
                     in Inr (length errors = 0, errors)))))"

definition agent_validate_file ::
  "filesystem \<Rightarrow> (string \<Rightarrow> exn + 'd) \<Rightarrow> ('d \<Rightarrow> exn + validation_error list) \<Rightarrow> string \<Rightarrow> exn + verdict" where
  "agent_validate_file fs safe_load iter_errors yaml_path =
     (case agent_validate_file_try fs safe_load iter_errors yaml_path of
        Inr v \<Rightarrow> Inr v
      | Inl e \<Rightarrow> handle_exn yaml_path e)"

subsection \<open>Parsed documents\<close>

text \<open>
  What \<^verbatim>\<open>yaml.safe_load\<close> returns for a document made of nulls, booleans, integers,
  floats, strings, sequences and mappings with string keys: Python's \<^verbatim>\<open>None\<close>,
  \<^verbatim>\<open>bool\<close>, \<^verbatim>\<open>int\<close>, \<^verbatim>\<open>float\<close> (by its exact value), \<^verbatim>\<open>str\<close>, \<^verbatim>\<open>list\<close> and \<^verbatim>\<open>dict\<close>
  (its items in insertion order, the keys distinct). Timestamps, binary values, sets,
  the infinite and the not-a-number floats and mappings with other keys are left out.
\<close>

datatype yaml =
    YNull
  | YBool bool
  | YInt int
  | YFloat rat
  | YStr string
  | YList "yaml list"
  | YMap "(string \<times> yaml) list"

text \<open>\<^verbatim>\<open>type(v).__name__\<close>, as the interpreter's messages print it.\<close>

fun type_name :: "yaml \<Rightarrow> string" where
  "type_name YNull = ''NoneType''"
| "type_name (YBool b) = ''bool''"
| "type_name (YInt i) = ''int''"
| "type_name (YFloat r) = ''float''"
| "type_name (YStr s) = ''str''"
| "type_name (YList xs) = ''list''"
| "type_name (YMap kvs) = ''dict''"

definition quoted :: "string \<Rightarrow> string" where
  "quoted s = apostrophe @ s @ apostrophe"

text \<open>
  Python's \<^verbatim>\<open>==\<close> on these values. Booleans, integers and floats are compared by
  their numeric value (\<^verbatim>\<open>True == 1\<close>, \<^verbatim>\<open>1 == 1.0\<close>); lists are compared element by
  element; dicts are equal when they have the same keys with equal values, whatever
  the order of the items.
\<close>

fun num_val :: "yaml \<Rightarrow> rat option" where
  "num_val (YBool b) = Some (if b then 1 else 0)"
| "num_val (YInt i) = Some (of_int i)"
| "num_val (YFloat r) = Some r"
| "num_val v = None"

fun py_eq :: "yaml \<Rightarrow> yaml \<Rightarrow> bool"
  and py_eq_list :: "yaml list \<Rightarrow> yaml list \<Rightarrow> bool"
  and py_eq_items :: "(string \<times> yaml) list \<Rightarrow> (string \<times> yaml) list \<Rightarrow> bool" where
  "py_eq (YList xs) (YList ys) = py_eq_list xs ys"
| "py_eq (YMap a) (YMap b) = (set (map fst a) = set (map fst b) \<and> py_eq_items a b)"
| "py_eq x y = (case num_val x of Some p \<Rightarrow> num_val y = Some p | None \<Rightarrow> x = y)"
| "py_eq_list [] [] = True"
| "py_eq_list (x # xs) (y # ys) = (py_eq x y \<and> py_eq_list xs ys)"
| "py_eq_list xs ys = False"
| "py_eq_items [] b = True"
| "py_eq_items ((k, v) # a) b =
     ((case map_of b k of Some w \<Rightarrow> py_eq v w | None \<Rightarrow> False) \<and> py_eq_items a b)"

text \<open>\<^verbatim>\<open>xs.count(x)\<close>: the number of elements equal to \<open>x\<close>.\<close>

definition py_count :: "yaml list \<Rightarrow> yaml \<Rightarrow> nat" where
  "py_count xs x = length (filter (\<lambda>e. py_eq e x) xs)"

text \<open>
  What the model takes from the interpreter as it is: the order in which a set built
  from the given elements is iterated (Python does not fix it; for strings it changes
  from one process to the next), and \<^verbatim>\<open>repr\<close> of a float, a list or a dict.
\<close>

record interp =
  set_order :: "yaml list \<Rightarrow> yaml list"
  repr_of :: "yaml \<Rightarrow> string"

text \<open>Python's \<^verbatim>\<open>str(n)\<close> for an integer.\<close>

definition str_int :: "int \<Rightarrow> string" where
  "str_int i = (if i < 0 then ''-'' @ str_nat (nat (- i)) else str_nat (nat i))"

text \<open>\<^verbatim>\<open>str(v)\<close>, which an f-string applies to a value it formats.\<close>

fun py_str :: "interp \<Rightarrow> yaml \<Rightarrow> string" where
  "py_str py (YStr s) = s"
| "py_str py YNull = ''None''"
| "py_str py (YBool b) = (if b then ''True'' else ''False'')"
| "py_str py (YInt i) = str_int i"
| "py_str py v = repr_of py v"

text \<open>
  \<^verbatim>\<open>key in obj\<close> for a string \<open>key\<close>: a key of a dict, a substring of a string, an
  element of a list; any other value raises \<^verbatim>\<open>TypeError\<close>. An exception of the
  interpreter is \<open>Exception\<close> with its message, in the wording of CPython 3.8 to 3.13.
\<close>

fun py_contains :: "string \<Rightarrow> yaml \<Rightarrow> exn + bool" where
  "py_contains key (YMap kvs) = Inr (key \<in> set (map fst kvs))"
| "py_contains key (YStr s) = Inr (sublist key s)"
| "py_contains key (YList xs) = Inr (list_ex (\<lambda>x. py_eq x (YStr key)) xs)"
| "py_contains key v =
     Inl (Exception (''argument of type '' @ quoted (type_name v) @ '' is not iterable''))"

text \<open>
  \<^verbatim>\<open>obj.get(key, default)\<close>: only a dict has the method; any other value raises
  \<^verbatim>\<open>AttributeError\<close>.
\<close>

fun py_get :: "yaml \<Rightarrow> string \<Rightarrow> yaml \<Rightarrow> exn + yaml" where
  "py_get (YMap kvs) key dflt = Inr (case map_of kvs key of Some v \<Rightarrow> v | None \<Rightarrow> dflt)"
| "py_get v key dflt =
     Inl (Exception (quoted (type_name v) @ '' object has no attribute '' @ quoted ''get''))"

text \<open>
  The elements that \<^verbatim>\<open>for x in obj\<close> runs through: those of a list, the keys of a
  dict, the characters of a string; any other value raises \<^verbatim>\<open>TypeError\<close>.
\<close>

fun py_iter :: "yaml \<Rightarrow> exn + yaml list" where
  "py_iter (YList xs) = Inr xs"
| "py_iter (YMap kvs) = Inr (map (\<lambda>kv. YStr (fst kv)) kvs)"
| "py_iter (YStr s) = Inr (map (\<lambda>c. YStr [c]) s)"
| "py_iter v = Inl (Exception (quoted (type_name v) @ '' object is not iterable''))"

text \<open>
  \<^verbatim>\<open>set(xs)\<close> raises \<^verbatim>\<open>TypeError\<close> at the first list or dict among \<open>xs\<close>, which
  cannot be hashed; otherwise the set holds the elements of \<open>xs\<close>.
\<close>

fun py_set :: "yaml list \<Rightarrow> exn + yaml list" where
  "py_set [] = Inr []"
| "py_set (YList xs # rest) = Inl (Exception (''unhashable type: '' @ quoted ''list''))"
| "py_set (YMap kvs # rest) = Inl (Exception (''unhashable type: '' @ quoted ''dict''))"
| "py_set (v # rest) = (case py_set rest of Inl e \<Rightarrow> Inl e | Inr vs \<Rightarrow> Inr (v # vs))"

text \<open>
  \<^verbatim>\<open>sep.join(xs)\<close> raises \<^verbatim>\<open>TypeError\<close> at the first element that is not a string;
  \<open>k\<close> is the position of the head of the list.
\<close>

fun join_items :: "nat \<Rightarrow> yaml list \<Rightarrow> exn + string list" where
  "join_items k [] = Inr []"
| "join_items k (YStr s # rest) =
     (case join_items (Suc k) rest of Inl e \<Rightarrow> Inl e | Inr ss \<Rightarrow> Inr (s # ss))"
| "join_items k (v # rest) =
     Inl (Exception (''sequence item '' @ str_nat k @ '': expected str instance, ''
                       @ type_name v @ '' found''))"

definition py_join :: "string \<Rightarrow> yaml list \<Rightarrow> exn + string" where
  "py_join sep xs = (case join_items 0 xs of Inl e \<Rightarrow> Inl e | Inr ss \<Rightarrow> Inr (join sep ss))"

subsection \<open>RecipeValidator\<close>

text \<open>
  The two messages of the loop over the stages, for the text that the f-string puts
  between the apostrophes.
\<close>

definition must_have_either :: "string \<Rightarrow> string" where
  "must_have_either stage_name =
     ''Stage '' @ apostrophe @ stage_name @ apostrophe @ '' must have either 'parallel' or 'sequence' field''"

definition cannot_have_both :: "string \<Rightarrow> string" where
  "cannot_have_both stage_name =
     ''Stage '' @ apostrophe @ stage_name @ apostrophe @ '' cannot have both 'parallel' and 'sequence' fields''"

text \<open>
  The comprehension \<^verbatim>\<open>[stage.get('stage') for stage in graph if 'stage' in stage]\<close>,
  element by element; it raises where \<^verbatim>\<open>in\<close> or \<^verbatim>\<open>get\<close> does.
\<close>

fun stage_names_of :: "yaml list \<Rightarrow> exn + yaml list" where
  "stage_names_of [] = Inr []"
| "stage_names_of (st # rest) =
     (case py_contains ''stage'' st of
        Inl e \<Rightarrow> Inl e
      | Inr present \<Rightarrow>
          (if present then
             (case py_get st ''stage'' YNull of
                Inl e \<Rightarrow> Inl e
              | Inr name \<Rightarrow>
                  (case stage_names_of rest of
                     Inl e \<Rightarrow> Inl e
                   | Inr names \<Rightarrow> Inr (name # names)))
           else stage_names_of rest))"

text \<open>
  The loop over \<^verbatim>\<open>enumerate(graph)\<close>: \<open>i\<close> is the index of the first stage of the
  list and \<open>errors\<close> the list appended to so far.
\<close>

fun check_stages :: "interp \<Rightarrow> nat \<Rightarrow> yaml list \<Rightarrow> string list \<Rightarrow> exn + string list" where
  "check_stages py i [] errors = Inr errors"
| "check_stages py i (st # rest) errors =
     (case py_contains ''parallel'' st of
        Inl e \<Rightarrow> Inl e
      | Inr has_parallel \<Rightarrow>
     (case py_contains ''sequence'' st of
        Inl e \<Rightarrow> Inl e
      | Inr has_sequence \<Rightarrow>
     (case (if \<not> has_parallel \<and> \<not> has_sequence then
              (case py_get st ''stage'' (YStr (''stage_'' @ str_nat i)) of
                 Inl e \<Rightarrow> Inl e
               | Inr stage_name \<Rightarrow> Inr (errors @ [must_have_either (py_str py stage_name)]))
            else Inr errors) of
        Inl e \<Rightarrow> Inl e
      | Inr errors1 \<Rightarrow>
     (case (if has_parallel \<and> has_sequence then
              (case py_get st ''stage'' (YStr (''stage_'' @ str_nat i)) of
                 Inl e \<Rightarrow> Inl e
               | Inr stage_name \<Rightarrow> Inr (errors1 @ [cannot_have_both (py_str py stage_name)]))
            else Inr errors1) of
        Inl e \<Rightarrow> Inl e
      | Inr errors2 \<Rightarrow> check_stages py (Suc i) rest errors2))))"

text \<open>
  \<^verbatim>\<open>_validate_recipe_semantics\<close>, on the document as it was loaded. An empty document
  loads as \<^verbatim>\<open>None\<close>, which has no \<^verbatim>\<open>get\<close>.
\<close>

definition validate_recipe_semantics :: "interp \<Rightarrow> yaml \<Rightarrow> exn + string list" where
  "validate_recipe_semantics py data =
     (case py_get data ''graph'' (YList []) of
        Inl e \<Rightarrow> Inl e
      | Inr graph \<Rightarrow>
     (case py_iter graph of
        Inl e \<Rightarrow> Inl e
      | Inr stages \<Rightarrow>
     (case stage_names_of stages of
        Inl e \<Rightarrow> Inl e
      | Inr stage_names \<Rightarrow>
     (case py_set (filter (\<lambda>name. py_count stage_names name > 1) stage_names) of
        Inl e \<Rightarrow> Inl e
      | Inr duplicate_stages \<Rightarrow>
     (case (if duplicate_stages \<noteq> [] then
              (case py_join '', '' (set_order py duplicate_stages) of
                 Inl e \<Rightarrow> Inl e
               | Inr joined \<Rightarrow> Inr [''Duplicate stage names found: '' @ joined])
            else Inr []) of
        Inl e \<Rightarrow> Inl e
      | Inr errors \<Rightarrow> check_stages py 0 stages errors)))))"

definition recipe_validate_file_try ::
  "interp \<Rightarrow> filesystem \<Rightarrow> (string \<Rightarrow> exn + yaml) \<Rightarrow> (yaml \<Rightarrow> exn + validation_error list)
     \<Rightarrow> string \<Rightarrow> exn + verdict" where
  "recipe_validate_file_try py fs safe_load iter_errors yaml_path =
     (case open_read fs yaml_path of
        Inl e \<Rightarrow> Inl e
      | Inr text \<Rightarrow>
          (case safe_load text of
             Inl e \<Rightarrow> Inl e
           | Inr data \<Rightarrow>
               (case iter_errors data of
                  Inl e \<Rightarrow> Inl e
                | Inr found \<Rightarrow>
                    (case validate_recipe_semantics py data of
                       Inl e \<Rightarrow> Inl e
                     | Inr semantic_errors \<Rightarrow>
                         (let errors = map format_validation_error found @ semantic_errors
                          in Inr (length errors = 0, errors))))))"

definition recipe_validate_file ::
  "interp \<Rightarrow> filesystem \<Rightarrow> (string \<Rightarrow> exn + yaml) \<Rightarrow> (yaml \<Rightarrow> exn + validation_error list)
     \<Rightarrow> string \<Rightarrow> exn + verdict" where
  "recipe_validate_file py fs safe_load iter_errors yaml_path =
     (case recipe_validate_file_try py fs safe_load iter_errors yaml_path of
        Inr v \<Rightarrow> Inr v
      | Inl e \<Rightarrow> handle_exn yaml_path e)"

subsection \<open>Stages that are mappings\<close>

text \<open>
  For the statements about the semantic validation: the value at the key \<^verbatim>\<open>stage\<close>
  of a stage that is a mapping, whether a stage that is a mapping has a key, and the
  graphs the statements are about, whose stages are mappings with a string, or
  nothing, at the key \<^verbatim>\<open>stage\<close>.
\<close>

definition stage_value :: "yaml \<Rightarrow> yaml option" where
  "stage_value st = (case st of YMap kvs \<Rightarrow> map_of kvs ''stage'' | _ \<Rightarrow> None)"

definition has_key :: "yaml \<Rightarrow> string \<Rightarrow> bool" where
  "has_key st key = (case st of YMap kvs \<Rightarrow> key \<in> set (map fst kvs) | _ \<Rightarrow> False)"

definition named_stage :: "yaml \<Rightarrow> bool" where
  "named_stage st =
     (case st of
        YMap kvs \<Rightarrow> (case map_of kvs ''stage'' of None \<Rightarrow> True | Some (YStr n) \<Rightarrow> True | Some v \<Rightarrow> False)
      | _ \<Rightarrow> False)"




section \<open>Agent specifications\<close>

text \<open>
  An agent specification is a mapping, read by the renderers at the keys below; a key
  that is absent is \<open>None\<close>. Identifiers, providers, tool types and descriptions are
  strings.
\<close>

record model_config =
  provider :: "string option"
  tier :: "string option"

record tool =
  tool_id :: "string option"
  tool_type :: "string option"
  tool_description :: "string option"

record agent_spec =
  spec_id :: "string option"
  spec_model :: "model_config option"
  spec_tools :: "tool list option"

section \<open>scripts/renderer.py\<close>

subsection \<open>Output file names\<close>

text \<open>
  Python's \<^verbatim>\<open>s.replace(old, new)\<close> for single characters \<open>old\<close> and \<open>new\<close>.
\<close>

definition replace_char :: "char \<Rightarrow> char \<Rightarrow> string \<Rightarrow> string" where
  "replace_char old new s = map (\<lambda>c. if c = old then new else c) s"

text \<open>
  The name of the file that each renderer writes below \<^verbatim>\<open>output_dir\<close>, from the loaded
  specification and \<^verbatim>\<open>spec_path.stem\<close>. \<^verbatim>\<open>ClaudeAdapter.generate_subagent_file\<close> and
  \<^verbatim>\<open>LangGraphAdapter.generate_agent_file\<close> name their files by the same two
  expressions as the first two.
\<close>

definition render_claude_agent_name :: "agent_spec \<Rightarrow> string \<Rightarrow> string" where
  "render_claude_agent_name spec stem =
     (let agent_id = (case spec_id spec of Some i \<Rightarrow> i | None \<Rightarrow> stem)
      in agent_id @ ''.md'')"

definition render_langgraph_agent_name :: "agent_spec \<Rightarrow> string \<Rightarrow> string" where
  "render_langgraph_agent_name spec stem =
     (let agent_id = (case spec_id spec of Some i \<Rightarrow> i | None \<Rightarrow> stem)
      in replace_char CHR ''-'' CHR ''_'' agent_id @ ''_agent.py'')"

definition render_assistant_config_name :: "agent_spec \<Rightarrow> string \<Rightarrow> string" where
  "render_assistant_config_name spec stem =
     (let agent_id = (case spec_id spec of Some i \<Rightarrow> i | None \<Rightarrow> stem)
      in agent_id @ ''_assistant.json'')"

subsection \<open>Tools of the assistant configuration\<close>

text \<open>The values that the configuration is built from, as \<^verbatim>\<open>json.dump\<close> writes them.\<close>

datatype json = JNull | JString string | JArray "json list" | JObject "(string \<times> json) list"

definition json_of_str :: "string option \<Rightarrow> json" where
  "json_of_str v = (case v of None \<Rightarrow> JNull | Some s \<Rightarrow> JString s)"

definition function_tool :: "tool \<Rightarrow> json" where
  "function_tool t =
     JObject
       [(''type'', JString ''function''),
        (''function'',
           JObject
             [(''name'', json_of_str (tool_id t)),
              (''description'', JString (case tool_description t of Some d \<Rightarrow> d | None \<Rightarrow> [])),
              (''parameters'',
                 JObject
                   [(''type'', JString ''object''),
                    (''properties'', JObject []),
                    (''required'', JArray [])])])]"

text \<open>
  The loop of \<^verbatim>\<open>_map_tools_to_openai\<close>; \<open>openai_tools\<close> is the list appended to so far.
\<close>

fun map_tools_loop :: "tool list \<Rightarrow> json list \<Rightarrow> json list" where
  "map_tools_loop [] openai_tools = openai_tools"
| "map_tools_loop (t # rest) openai_tools =
     (if tool_type t = Some ''builtin'' then
        (if tool_id t \<in> set [Some ''code_interpreter'', Some ''file_search''] then
           map_tools_loop rest (openai_tools @ [JObject [(''type'', json_of_str (tool_id t))]])
         else map_tools_loop rest openai_tools)
      else if tool_type t = Some ''http'' then
        map_tools_loop rest (openai_tools @ [function_tool t])
      else map_tools_loop rest openai_tools)"

definition map_tools_to_openai :: "tool list \<Rightarrow> json list" where
  "map_tools_to_openai tools = map_tools_loop tools []"

section \<open>adapters/langgraph\<close>

definition base_requirements :: "string set" where
  "base_requirements = {''langgraph>=0.0.60'', ''langchain>=0.1.0'', ''langchain-core>=0.1.0''}"

text \<open>
  \<^verbatim>\<open>spec.get('model', {}).get('provider', 'anthropic')\<close>: the provider that a
  specification declares, and \<^verbatim>\<open>'anthropic'\<close> when the model or its provider is
  absent.
\<close>

definition provider_of :: "agent_spec \<Rightarrow> string" where
  "provider_of spec =
     (case spec_model spec of
        None \<Rightarrow> ''anthropic''
      | Some m \<Rightarrow> (case provider m of None \<Rightarrow> ''anthropic'' | Some p \<Rightarrow> p))"

text \<open>
  The loop of \<^verbatim>\<open>generate_requirements_file\<close> over the specifications; \<open>requirements\<close>
  is the set added to so far.
\<close>

fun add_model_requirements :: "agent_spec list \<Rightarrow> string set \<Rightarrow> string set" where
  "add_model_requirements [] requirements = requirements"
| "add_model_requirements (spec # specs) requirements =
     (if provider_of spec = ''anthropic'' then
        add_model_requirements specs (insert ''langchain-anthropic>=0.1.0'' requirements)
      else if provider_of spec = ''openai'' then
        add_model_requirements specs (insert ''langchain-openai>=0.1.0'' requirements)
      else add_model_requirements specs requirements)"

text \<open>
  \<^verbatim>\<open>generate_requirements_file\<close> returns the path of the manifest; the model returns
  with it the text written there: the requirements in \<^verbatim>\<open>sorted\<close> order (strings are
  compared character by character, by code), each followed by a newline.
\<close>

definition newline :: string where
  "newline = [CHR 0x0A]"

definition write_lines :: "string list \<Rightarrow> string" where
  "write_lines reqs = concat (map (\<lambda>req. req @ newline) reqs)"

definition generate_requirements_file :: "agent_spec list \<Rightarrow> string \<Rightarrow> string \<times> string" where
  "generate_requirements_file specs output_dir =
     (let requirements = add_model_requirements specs base_requirements;
          requirements_file = output_dir @ ''/requirements.txt''
      in (requirements_file, write_lines (sorted_list_of_set requirements)))"

section \<open>Properties of the validators\<close>

subsection \<open>The messages, spelled out\<close>

lemma must_have_either_text:
  "must_have_either ''build'' = ''Stage 'build' must have either 'parallel' or 'sequence' field''"
  by (simp add: must_have_either_def apostrophe_def)

lemma cannot_have_both_text:
  "cannot_have_both ''build'' = ''Stage 'build' cannot have both 'parallel' and 'sequence' fields''"
  by (simp add: cannot_have_both_def apostrophe_def)

lemma str_nat_examples:
  "str_nat 0 = ''0''" "str_nat 7 = ''7''" "str_nat 12 = ''12''" "str_nat 305 = ''305''"
  by (simp_all add: str_nat.simps digit_def)

subsection \<open>Graphs whose stages are mappings with string names\<close>

lemma py_eq_YStr [simp]: "py_eq (YStr a) v = (v = YStr a)" "py_eq v (YStr a) = (v = YStr a)"
  by (cases v; auto)+

lemma named_stage_cases:
  assumes "named_stage st"
  obtains kvs where "st = YMap kvs" "map_of kvs ''stage'' = None"
  | kvs n where "st = YMap kvs" "map_of kvs ''stage'' = Some (YStr n)"
  using assms unfolding named_stage_def
  by (auto split: yaml.splits option.splits)


lemma has_key_stage:
  "named_stage st \<Longrightarrow> has_key st ''stage'' = (stage_value st \<noteq> None)"
proof (erule named_stage_cases)
  fix kvs assume "st = YMap kvs" "map_of kvs ''stage'' = None"
  then show ?thesis by (simp add: has_key_def stage_value_def map_of_eq_None_iff)
next
  fix kvs n assume st: "st = YMap kvs" and v: "map_of kvs ''stage'' = Some (YStr n)"
  from v have "(''stage'', YStr n) \<in> set kvs" by (rule map_of_SomeD)
  then have "''stage'' \<in> fst ` set kvs" by force
  with st v show ?thesis by (simp add: has_key_def stage_value_def)
qed





















text \<open>
  Claim C3. When the schema validator finds no violation, \<^verbatim>\<open>validate_data\<close> returns
  \<open>(True, [])\<close>. When it finds several, the verdict is \<open>False\<close> and the error list
  has one formatted entry for each violation found, in the order found: none is
  dropped and the collection does not stop at the first.
\<close>

theorem validate_data_collects_all:
  assumes "iter_errors data = Inr found"
  shows "(found = [] \<longrightarrow> validate_data iter_errors data = (True, []))
       \<and> fst (validate_data iter_errors data) = (found = [])
       \<and> snd (validate_data iter_errors data) = map format_validation_error found
       \<and> length (snd (validate_data iter_errors data)) = length found"
  using assms by (simp add: validate_data_def Let_def)

theorem validate_data_collects_all_witness:
  "validate_data
     (\<lambda>data. Inr [\<lparr>absolute_path = [Key ''model'', Key ''provider''], message = ''xyz is not one of the providers''\<rparr>,
                   \<lparr>absolute_path = [], message = ''id is a required property''\<rparr>])
     ()
   = (False, [''Field 'model.provider': xyz is not one of the providers'', ''id is a required property''])
   \<and> validate_data (\<lambda>data. Inr []) () = (True, [])"
proof -
  let ?found = "[\<lparr>absolute_path = [Key ''model'', Key ''provider''], message = ''xyz is not one of the providers''\<rparr>,
                   \<lparr>absolute_path = [], message = ''id is a required property''\<rparr>]"
  let ?iter = "\<lambda>data :: unit. (Inr ?found :: exn + validation_error list)"
  let ?none = "\<lambda>data :: unit. (Inr [] :: exn + validation_error list)"
  have h: "?iter () = Inr ?found" by simp
  have h0: "?none () = Inr []" by simp
  from validate_data_collects_all [where iter_errors = ?iter and data = "()" and found = ?found, OF h]
  have "fst (validate_data ?iter ()) = False"
    and "snd (validate_data ?iter ()) = map format_validation_error ?found"
    by simp_all
  then have "validate_data ?iter ()
               = (False, [''Field 'model.provider': xyz is not one of the providers'',
                          ''id is a required property''])"
    by (simp add: prod_eq_iff format_validation_error_def apostrophe_def)
  moreover from validate_data_collects_all [where iter_errors = ?none and data = "()" and found = "[]", OF h0]
  have "validate_data ?none () = (True, [])" by simp
  ultimately show ?thesis by simp
qed

text \<open>
  Claim C5, as the code has it. On a path with no file, \<^verbatim>\<open>validate_file\<close> of either
  validator does not raise: it returns the verdict \<open>(False, [m])\<close>, of the shape of a
  validation failure, where \<open>m\<close> is "File not found: " followed by the path.
\<close>

theorem missing_file_reported_as_verdict:
  assumes "fs yaml_path = None"
  shows "agent_validate_file fs safe_load iter_errors yaml_path
           = Inr (False, [''File not found: '' @ yaml_path])
       \<and> recipe_validate_file py fs safe_load' iter_errors' yaml_path
           = Inr (False, [''File not found: '' @ yaml_path])"
  using assms
  by (simp add: agent_validate_file_def agent_validate_file_try_def
      recipe_validate_file_def recipe_validate_file_try_def open_read_def)

theorem missing_file_reported_as_verdict_witness:
  "agent_validate_file [''agents/reviewer.yaml'' \<mapsto> ''id: reviewer'']
       (\<lambda>text. Inr ()) (\<lambda>data. Inr []) ''agents/missing.yaml''
     = Inr (False, [''File not found: agents/missing.yaml''])
   \<and> recipe_validate_file \<lparr>set_order = remdups, repr_of = (\<lambda>v. [])\<rparr>
       [''agents/reviewer.yaml'' \<mapsto> ''id: reviewer'']
       (\<lambda>text. Inr YNull) (\<lambda>data. Inr []) ''agents/missing.yaml''
     = Inr (False, [''File not found: agents/missing.yaml''])"
proof -
  let ?fs = "[''agents/reviewer.yaml'' \<mapsto> ''id: reviewer'']"
  have h: "?fs ''agents/missing.yaml'' = None" by simp
  show ?thesis
    using missing_file_reported_as_verdict [where fs = ?fs and yaml_path = "''agents/missing.yaml''"
        and safe_load = "\<lambda>text. Inr ()" and iter_errors = "\<lambda>data. Inr []"
        and py = "\<lparr>set_order = remdups, repr_of = (\<lambda>v. [])\<rparr>"
        and safe_load' = "\<lambda>text. Inr YNull" and iter_errors' = "\<lambda>data. Inr []", OF h]
    by simp
qed

text \<open>
  Claim C5 as stated fails: on a file system with no file at all, the call returns a
  verdict and does not abort.
\<close>

theorem missing_file_does_not_abort:
  "agent_validate_file Map.empty (\<lambda>text. Inr ()) (\<lambda>data. Inr []) ''agents/missing.yaml''
     = Inr (False, [''File not found: agents/missing.yaml''])"
  by (simp add: agent_validate_file_def agent_validate_file_try_def open_read_def)

text \<open>
  Claim C7, as the code has it. For a violation at a location other than the root, the
  message is the word "Field", the dot-joined path between apostrophes, a colon, a
  space and the library's message.
\<close>

theorem format_validation_error_nonroot:
  assumes "absolute_path e \<noteq> []"
  shows "format_validation_error e
           = ''Field '' @ apostrophe @ join ''.'' (map str_path_elem (absolute_path e)) @ apostrophe
               @ '': '' @ message e"
  using assms by (simp add: format_validation_error_def)

theorem format_validation_error_nonroot_witness:
  "format_validation_error \<lparr>absolute_path = [Key ''tools'', Index 0, Key ''type''], message = ''bad''\<rparr>
     = ''Field 'tools.0.type': bad''"
proof -
  let ?e = "\<lparr>absolute_path = [Key ''tools'', Index 0, Key ''type''], message = ''bad''\<rparr>"
  have h: "absolute_path ?e \<noteq> []" by simp
  show ?thesis
    using format_validation_error_nonroot [OF h]
    by (simp add: apostrophe_def str_nat.simps digit_def)
qed

text \<open>
  Claim C7 as stated fails: the message does not begin with the path.
\<close>

theorem format_validation_error_not_bare_path:
  "format_validation_error \<lparr>absolute_path = [Key ''model'', Key ''provider''], message = ''bad''\<rparr>
     \<noteq> ''model.provider: bad''"
  by (simp add: format_validation_error_def apostrophe_def)

section \<open>Properties of the renderer\<close>

subsection \<open>The loop over the tools\<close>

lemma map_tools_loop_append:
  "map_tools_loop tools acc = acc @ map_tools_loop tools []"
proof (induction tools arbitrary: acc)
  case Nil
  show ?case by simp
next
  case (Cons t rest)
  show ?case
    using Cons.IH [of "acc @ [JObject [(''type'', json_of_str (tool_id t))]]"]
      Cons.IH [of "[JObject [(''type'', json_of_str (tool_id t))]]"]
      Cons.IH [of "acc @ [function_tool t]"]
      Cons.IH [of "[function_tool t]"]
      Cons.IH [of acc]
    by simp
qed

lemma map_tools_to_openai_Cons:
  "map_tools_to_openai (t # rest) = map_tools_to_openai [t] @ map_tools_to_openai rest"
  unfolding map_tools_to_openai_def
  using map_tools_loop_append [of rest "[JObject [(''type'', json_of_str (tool_id t))]]"]
    map_tools_loop_append [of rest "[function_tool t]"]
  by simp

lemma map_tools_to_openai_append:
  "map_tools_to_openai (xs @ ys) = map_tools_to_openai xs @ map_tools_to_openai ys"
proof (induction xs)
  case Nil
  show ?case by (simp add: map_tools_to_openai_def)
next
  case (Cons t rest)
  have "map_tools_to_openai ((t # rest) @ ys)
          = map_tools_to_openai [t] @ map_tools_to_openai (rest @ ys)"
    using map_tools_to_openai_Cons [of t "rest @ ys"] by simp
  also have "\<dots> = map_tools_to_openai [t] @ map_tools_to_openai rest @ map_tools_to_openai ys"
    by (simp add: Cons.IH)
  also have "\<dots> = map_tools_to_openai (t # rest) @ map_tools_to_openai ys"
    using map_tools_to_openai_Cons [of t rest] by simp
  finally show ?case .
qed

text \<open>
  Claim C4, as the code has it. The tools are mapped one by one, in order. A tool of
  type \<^verbatim>\<open>builtin\<close> whose id is \<^verbatim>\<open>code_interpreter\<close> or \<^verbatim>\<open>file_search\<close> gives the
  built-in tag of that id; a tool of type \<^verbatim>\<open>builtin\<close> with any other id, or none,
  gives nothing; a tool of type \<^verbatim>\<open>http\<close> gives a function descriptor with the tool's
  description (the empty text when it has none) and an empty parameter schema; a tool
  of any other type, or of none, gives nothing.
\<close>

theorem map_tools_to_openai_by_type:
  "map_tools_to_openai (xs @ ys) = map_tools_to_openai xs @ map_tools_to_openai ys
   \<and> (tool_type t = Some ''builtin'' \<and> tool_id t = Some i \<and> i \<in> {''code_interpreter'', ''file_search''}
        \<longrightarrow> map_tools_to_openai [t] = [JObject [(''type'', JString i)]])
   \<and> (tool_type t = Some ''builtin'' \<and> tool_id t \<notin> {Some ''code_interpreter'', Some ''file_search''}
        \<longrightarrow> map_tools_to_openai [t] = [])
   \<and> (tool_type t = Some ''http''
        \<longrightarrow> map_tools_to_openai [t] =
              [JObject
                 [(''type'', JString ''function''),
                  (''function'',
                     JObject
                       [(''name'', json_of_str (tool_id t)),
                        (''description'', JString (case tool_description t of Some d \<Rightarrow> d | None \<Rightarrow> [])),
                        (''parameters'',
                           JObject
                             [(''type'', JString ''object''),
                              (''properties'', JObject []),
                              (''required'', JArray [])])])]])
   \<and> (tool_type t \<noteq> Some ''builtin'' \<and> tool_type t \<noteq> Some ''http''
        \<longrightarrow> map_tools_to_openai [t] = [])"
proof -
  have "map_tools_to_openai (xs @ ys) = map_tools_to_openai xs @ map_tools_to_openai ys"
    by (rule map_tools_to_openai_append)
  moreover have "tool_type t = Some ''builtin'' \<and> tool_id t = Some i
        \<and> i \<in> {''code_interpreter'', ''file_search''}
        \<longrightarrow> map_tools_to_openai [t] = [JObject [(''type'', JString i)]]"
    by (auto simp: map_tools_to_openai_def json_of_str_def)
  moreover have "tool_type t = Some ''builtin''
        \<and> tool_id t \<notin> {Some ''code_interpreter'', Some ''file_search''}
        \<longrightarrow> map_tools_to_openai [t] = []"
    by (auto simp: map_tools_to_openai_def)
  moreover have "tool_type t = Some ''http''
        \<longrightarrow> map_tools_to_openai [t] = [function_tool t]"
    by (auto simp: map_tools_to_openai_def)
  moreover have "tool_type t \<noteq> Some ''builtin'' \<and> tool_type t \<noteq> Some ''http''
        \<longrightarrow> map_tools_to_openai [t] = []"
    by (auto simp: map_tools_to_openai_def)
  ultimately show ?thesis
    unfolding function_tool_def by blast
qed

theorem map_tools_to_openai_by_type_witness:
  "map_tools_to_openai
     [\<lparr>tool_id = Some ''file_search'', tool_type = Some ''builtin'', tool_description = None\<rparr>,
      \<lparr>tool_id = Some ''test_tool'', tool_type = Some ''builtin'', tool_description = Some ''A test tool''\<rparr>,
      \<lparr>tool_id = Some ''fetch_issue'', tool_type = Some ''http'', tool_description = Some ''Fetch an issue''\<rparr>,
      \<lparr>tool_id = Some ''notes'', tool_type = None, tool_description = None\<rparr>]
   = [JObject [(''type'', JString ''file_search'')],
      JObject
        [(''type'', JString ''function''),
         (''function'',
            JObject
              [(''name'', JString ''fetch_issue''),
               (''description'', JString ''Fetch an issue''),
               (''parameters'',
                  JObject
                    [(''type'', JString ''object''),
                     (''properties'', JObject []),
                     (''required'', JArray [])])])]]"
proof -
  let ?t1 = "\<lparr>tool_id = Some ''file_search'', tool_type = Some ''builtin'', tool_description = None\<rparr>"
  let ?t2 = "\<lparr>tool_id = Some ''test_tool'', tool_type = Some ''builtin'', tool_description = Some ''A test tool''\<rparr>"
  let ?t3 = "\<lparr>tool_id = Some ''fetch_issue'', tool_type = Some ''http'', tool_description = Some ''Fetch an issue''\<rparr>"
  let ?t4 = "\<lparr>tool_id = Some ''notes'', tool_type = None, tool_description = None\<rparr>"
  have split: "map_tools_to_openai [?t1, ?t2, ?t3, ?t4]
      = map_tools_to_openai [?t1] @ map_tools_to_openai [?t2]
          @ map_tools_to_openai [?t3] @ map_tools_to_openai [?t4]"
    using map_tools_to_openai_by_type [where xs = "[?t1]" and ys = "[?t2, ?t3, ?t4]"]
      map_tools_to_openai_by_type [where xs = "[?t2]" and ys = "[?t3, ?t4]"]
      map_tools_to_openai_by_type [where xs = "[?t3]" and ys = "[?t4]"]
    by simp
  have r1: "map_tools_to_openai [?t1] = [JObject [(''type'', JString ''file_search'')]]"
    using map_tools_to_openai_by_type [where t = ?t1 and i = "''file_search''"] by simp
  have r2: "map_tools_to_openai [?t2] = []"
    using map_tools_to_openai_by_type [where t = ?t2] by simp
  have r3: "map_tools_to_openai [?t3] =
      [JObject
        [(''type'', JString ''function''),
         (''function'',
            JObject
              [(''name'', JString ''fetch_issue''),
               (''description'', JString ''Fetch an issue''),
               (''parameters'',
                  JObject
                    [(''type'', JString ''object''),
                     (''properties'', JObject []),
                     (''required'', JArray [])])])]]"
    using map_tools_to_openai_by_type [where t = ?t3] by (simp add: json_of_str_def)
  have r4: "map_tools_to_openai [?t4] = []"
    using map_tools_to_openai_by_type [where t = ?t4] by simp
  show ?thesis
    by (simp only: split r1 r2 r3 r4 append_Nil append_Nil2 append_Cons)
qed

text \<open>
  Claim C4 as stated fails: a tool whose type is neither \<^verbatim>\<open>builtin\<close> nor \<^verbatim>\<open>http\<close>
  gives no function descriptor; it is dropped.
\<close>

theorem non_builtin_tool_dropped:
  "map_tools_to_openai
     [\<lparr>tool_id = Some ''search_docs'', tool_type = Some ''mcp'',
       tool_description = Some ''Search the documentation''\<rparr>] = []"
  by (simp add: map_tools_to_openai_def)

text \<open>
  Claim C9. Without an \<^verbatim>\<open>id\<close>, each renderer names its file after the stem of the
  source path: \<^verbatim>\<open><stem>.md\<close>, \<^verbatim>\<open><stem with - replaced by _>_agent.py\<close> and
  \<^verbatim>\<open><stem>_assistant.json\<close>. With an \<^verbatim>\<open>id\<close>, the same three rules apply to the id.
\<close>

theorem output_names_from_id_or_stem:
  "(spec_id spec = None \<longrightarrow>
      render_claude_agent_name spec stem = stem @ ''.md''
    \<and> render_langgraph_agent_name spec stem
        = map (\<lambda>c. if c = CHR ''-'' then CHR ''_'' else c) stem @ ''_agent.py''
    \<and> render_assistant_config_name spec stem = stem @ ''_assistant.json'')
   \<and> (spec_id spec = Some i \<longrightarrow>
      render_claude_agent_name spec stem = i @ ''.md''
    \<and> render_langgraph_agent_name spec stem
        = map (\<lambda>c. if c = CHR ''-'' then CHR ''_'' else c) i @ ''_agent.py''
    \<and> render_assistant_config_name spec stem = i @ ''_assistant.json'')"
  by (simp add: render_claude_agent_name_def render_langgraph_agent_name_def
      render_assistant_config_name_def replace_char_def)

theorem output_names_from_id_or_stem_witness:
  "render_claude_agent_name \<lparr>spec_id = None, spec_model = None, spec_tools = None\<rparr> ''code-reviewer''
     = ''code-reviewer.md''
   \<and> render_langgraph_agent_name \<lparr>spec_id = None, spec_model = None, spec_tools = None\<rparr> ''code-reviewer''
     = ''code_reviewer_agent.py''
   \<and> render_assistant_config_name \<lparr>spec_id = None, spec_model = None, spec_tools = None\<rparr> ''code-reviewer''
     = ''code-reviewer_assistant.json''
   \<and> render_claude_agent_name \<lparr>spec_id = Some ''test-agent'', spec_model = None, spec_tools = None\<rparr> ''draft''
     = ''test-agent.md''
   \<and> render_langgraph_agent_name \<lparr>spec_id = Some ''test-agent'', spec_model = None, spec_tools = None\<rparr> ''draft''
     = ''test_agent_agent.py''
   \<and> render_assistant_config_name \<lparr>spec_id = Some ''test-agent'', spec_model = None, spec_tools = None\<rparr> ''draft''
     = ''test-agent_assistant.json''"
  using output_names_from_id_or_stem
      [where spec = "\<lparr>spec_id = None, spec_model = None, spec_tools = None\<rparr>"
         and stem = "''code-reviewer''"]
    output_names_from_id_or_stem
      [where spec = "\<lparr>spec_id = Some ''test-agent'', spec_model = None, spec_tools = None\<rparr>"
         and stem = "''draft''" and i = "''test-agent''"]
  by simp

section \<open>Properties of the dependency manifest\<close>

lemma add_model_requirements_eq:
  "add_model_requirements specs reqs =
     reqs \<union> (if ''anthropic'' \<in> provider_of ` set specs then {''langchain-anthropic>=0.1.0''} else {})
          \<union> (if ''openai'' \<in> provider_of ` set specs then {''langchain-openai>=0.1.0''} else {})"
proof (induction specs arbitrary: reqs)
  case Nil
  show ?case by simp
next
  case (Cons spec specs)
  consider (a) "provider_of spec = ''anthropic''"
    | (b) "provider_of spec = ''openai''"
    | (c) "provider_of spec \<noteq> ''anthropic''" "provider_of spec \<noteq> ''openai''"
    by blast
  then show ?case
  proof cases
    case a
    then have "add_model_requirements (spec # specs) reqs
                 = add_model_requirements specs (insert ''langchain-anthropic>=0.1.0'' reqs)"
      by simp
    then show ?thesis using a by (auto simp: Cons.IH)
  next
    case b
    then have "add_model_requirements (spec # specs) reqs
                 = add_model_requirements specs (insert ''langchain-openai>=0.1.0'' reqs)"
      by simp
    then show ?thesis using b by (auto simp: Cons.IH)
  next
    case c
    then have "add_model_requirements (spec # specs) reqs = add_model_requirements specs reqs"
      by simp
    then show ?thesis using c by (auto simp: Cons.IH)
  qed
qed

lemma finite_requirements: "finite (add_model_requirements specs base_requirements)"
  by (simp add: add_model_requirements_eq base_requirements_def)

lemma requirements_set:
  "set (sorted_list_of_set (add_model_requirements specs base_requirements))
     = add_model_requirements specs base_requirements"
  by (simp add: finite_requirements)

lemma declared_provider:
  "spec_model spec = Some m \<Longrightarrow> model_config.provider m = Some p \<Longrightarrow> provider_of spec = p"
  by (simp add: provider_of_def)

lemma five_sorted_union:
  "sorted_list_of_set
     ({''langgraph>=0.0.60'', ''langchain>=0.1.0'', ''langchain-core>=0.1.0''}
        \<union> {''langchain-anthropic>=0.1.0''} \<union> {''langchain-openai>=0.1.0''})
   = [''langchain-anthropic>=0.1.0'', ''langchain-core>=0.1.0'', ''langchain-openai>=0.1.0'',
      ''langchain>=0.1.0'', ''langgraph>=0.0.60'']"
  by code_simp

lemma base_in_requirements:
  "base_requirements \<subseteq> add_model_requirements specs base_requirements"
  by (simp only: add_model_requirements_eq) blast

lemma anthropic_in_requirements:
  "''anthropic'' \<in> provider_of ` set specs \<Longrightarrow>
     ''langchain-anthropic>=0.1.0'' \<in> add_model_requirements specs reqs"
  by (simp only: add_model_requirements_eq if_True) blast

lemma openai_in_requirements:
  "''openai'' \<in> provider_of ` set specs \<Longrightarrow>
     ''langchain-openai>=0.1.0'' \<in> add_model_requirements specs reqs"
  by (simp only: add_model_requirements_eq if_True) blast

lemma provider_of_anthropic:
  "provider_of spec = ''anthropic''
     \<longleftrightarrow> (case spec_model spec of None \<Rightarrow> None | Some m \<Rightarrow> model_config.provider m)
           \<in> {None, Some ''anthropic''}"
  by (simp add: provider_of_def split: option.splits)

lemma provider_of_openai:
  "provider_of spec = ''openai''
     \<longleftrightarrow> (case spec_model spec of None \<Rightarrow> None | Some m \<Rightarrow> model_config.provider m)
           = Some ''openai''"
  by (simp add: provider_of_def split: option.splits)

lemma image_mem_iff: "x \<in> f ` A \<longleftrightarrow> (\<exists>a \<in> A. f a = x)"
  by auto

lemma requirements_exact:
  "add_model_requirements specs base_requirements =
     {''langgraph>=0.0.60'', ''langchain>=0.1.0'', ''langchain-core>=0.1.0''}
     \<union> (if \<exists>spec \<in> set specs.
              (case spec_model spec of None \<Rightarrow> None | Some m \<Rightarrow> model_config.provider m)
                \<in> {None, Some ''anthropic''}
         then {''langchain-anthropic>=0.1.0''} else {})
     \<union> (if \<exists>spec \<in> set specs.
              (case spec_model spec of None \<Rightarrow> None | Some m \<Rightarrow> model_config.provider m)
                = Some ''openai''
         then {''langchain-openai>=0.1.0''} else {})"
  by (simp only: add_model_requirements_eq image_mem_iff provider_of_anthropic provider_of_openai
      base_requirements_def)

lemma union_members:
  "e \<in> {a, b, c} \<union> (if P then {d} else {}) \<union> (if Q then {f} else {})
     \<Longrightarrow> e = a \<or> e = b \<or> e = c \<or> e = d \<or> e = f"
  by (auto split: if_splits)

lemma no_line_feed_in_literals:
  "CHR 0x0A \<notin> set ''langgraph>=0.0.60''" "CHR 0x0A \<notin> set ''langchain>=0.1.0''"
  "CHR 0x0A \<notin> set ''langchain-core>=0.1.0''" "CHR 0x0A \<notin> set ''langchain-anthropic>=0.1.0''"
  "CHR 0x0A \<notin> set ''langchain-openai>=0.1.0''"
  by simp_all

lemma no_line_feed_in_requirements:
  assumes "e \<in> add_model_requirements specs base_requirements"
  shows "CHR 0x0A \<notin> set e"
proof -
  from assms have "e = ''langgraph>=0.0.60'' \<or> e = ''langchain>=0.1.0''
      \<or> e = ''langchain-core>=0.1.0'' \<or> e = ''langchain-anthropic>=0.1.0''
      \<or> e = ''langchain-openai>=0.1.0''"
    unfolding add_model_requirements_eq base_requirements_def by (rule union_members)
  then show ?thesis
    using no_line_feed_in_literals by (elim disjE) simp_all
qed

lemma three_sorted:
  "sorted_list_of_set {''langgraph>=0.0.60'', ''langchain>=0.1.0'', ''langchain-core>=0.1.0''}
   = [''langchain-core>=0.1.0'', ''langchain>=0.1.0'', ''langgraph>=0.0.60'']"
  by code_simp

text \<open>
  Claim C6. The manifest that \<^verbatim>\<open>generate_requirements_file\<close> writes is a list of
  entries, one on each line and none with a line feed in it, in which no entry stands
  twice and which is sorted. Its entries are exactly the three base packages, the
  anthropic entry when some specification declares the provider \<^verbatim>\<open>anthropic\<close> or
  declares none, and the openai entry when some specification declares \<^verbatim>\<open>openai\<close>;
  so the provider entries are there only for providers met in the collection. When the
  providers declared in the collection are exactly these two, the manifest is the
  five entries below, each once.
\<close>

theorem requirements_manifest:
  "\<exists>entries.
     generate_requirements_file specs output_dir
       = (output_dir @ ''/requirements.txt'', concat (map (\<lambda>req. req @ [CHR 0x0A]) entries))
   \<and> distinct entries
   \<and> sorted entries
   \<and> set entries =
       {''langgraph>=0.0.60'', ''langchain>=0.1.0'', ''langchain-core>=0.1.0''}
       \<union> (if \<exists>spec \<in> set specs.
                (case spec_model spec of None \<Rightarrow> None | Some m \<Rightarrow> model_config.provider m)
                  \<in> {None, Some ''anthropic''}
           then {''langchain-anthropic>=0.1.0''} else {})
       \<union> (if \<exists>spec \<in> set specs.
                (case spec_model spec of None \<Rightarrow> None | Some m \<Rightarrow> model_config.provider m)
                  = Some ''openai''
           then {''langchain-openai>=0.1.0''} else {})
   \<and> (\<forall>e \<in> set entries. CHR 0x0A \<notin> set e)
   \<and> {''langgraph>=0.0.60'', ''langchain>=0.1.0'', ''langchain-core>=0.1.0''} \<subseteq> set entries
   \<and> ((\<exists>spec \<in> set specs. \<exists>m. spec_model spec = Some m \<and> model_config.provider m = Some ''anthropic'')
        \<longrightarrow> ''langchain-anthropic>=0.1.0'' \<in> set entries)
   \<and> ((\<exists>spec \<in> set specs. \<exists>m. spec_model spec = Some m \<and> model_config.provider m = Some ''openai'')
        \<longrightarrow> ''langchain-openai>=0.1.0'' \<in> set entries)
   \<and> ((\<lambda>spec. case spec_model spec of None \<Rightarrow> None | Some m \<Rightarrow> model_config.provider m) ` set specs
          = {Some ''anthropic'', Some ''openai''}
        \<longrightarrow> entries = [''langchain-anthropic>=0.1.0'', ''langchain-core>=0.1.0'',
                       ''langchain-openai>=0.1.0'', ''langchain>=0.1.0'', ''langgraph>=0.0.60''])"
proof -
  let ?R = "add_model_requirements specs base_requirements"
  let ?entries = "sorted_list_of_set ?R"
  let ?declared = "\<lambda>spec. case spec_model spec of None \<Rightarrow> None | Some m \<Rightarrow> model_config.provider m"
  have written: "generate_requirements_file specs output_dir
       = (output_dir @ ''/requirements.txt'', concat (map (\<lambda>req. req @ [CHR 0x0A]) ?entries))"
    by (simp only: generate_requirements_file_def write_lines_def newline_def Let_def)
  have set_entries: "set ?entries = ?R" by (rule requirements_set)
  have dist: "distinct ?entries" by (rule distinct_sorted_list_of_set)
  have sort: "sorted ?entries" by (rule sorted_sorted_list_of_set)
  have exact: "set ?entries =
       {''langgraph>=0.0.60'', ''langchain>=0.1.0'', ''langchain-core>=0.1.0''}
       \<union> (if \<exists>spec \<in> set specs. ?declared spec \<in> {None, Some ''anthropic''}
           then {''langchain-anthropic>=0.1.0''} else {})
       \<union> (if \<exists>spec \<in> set specs. ?declared spec = Some ''openai''
           then {''langchain-openai>=0.1.0''} else {})"
    unfolding set_entries by (rule requirements_exact)
  have nolf: "\<forall>e \<in> set ?entries. CHR 0x0A \<notin> set e"
    unfolding set_entries using no_line_feed_in_requirements by blast
  have base: "{''langgraph>=0.0.60'', ''langchain>=0.1.0'', ''langchain-core>=0.1.0''} \<subseteq> set ?entries"
    unfolding set_entries using base_in_requirements [of specs]
    by (simp only: base_requirements_def)
  have anth: "(\<exists>spec \<in> set specs. \<exists>m. spec_model spec = Some m \<and> model_config.provider m = Some ''anthropic'')
        \<longrightarrow> ''langchain-anthropic>=0.1.0'' \<in> set ?entries"
  proof
    assume "\<exists>spec \<in> set specs. \<exists>m. spec_model spec = Some m \<and> model_config.provider m = Some ''anthropic''"
    then obtain spec m where "spec \<in> set specs" "spec_model spec = Some m"
      "model_config.provider m = Some ''anthropic''" by blast
    then have "''anthropic'' \<in> provider_of ` set specs"
      using declared_provider [of spec m "''anthropic''"] by (metis imageI)
    then show "''langchain-anthropic>=0.1.0'' \<in> set ?entries"
      unfolding set_entries by (rule anthropic_in_requirements)
  qed
  have opai: "(\<exists>spec \<in> set specs. \<exists>m. spec_model spec = Some m \<and> model_config.provider m = Some ''openai'')
        \<longrightarrow> ''langchain-openai>=0.1.0'' \<in> set ?entries"
  proof
    assume "\<exists>spec \<in> set specs. \<exists>m. spec_model spec = Some m \<and> model_config.provider m = Some ''openai''"
    then obtain spec m where "spec \<in> set specs" "spec_model spec = Some m"
      "model_config.provider m = Some ''openai''" by blast
    then have "''openai'' \<in> provider_of ` set specs"
      using declared_provider [of spec m "''openai''"] by (metis imageI)
    then show "''langchain-openai>=0.1.0'' \<in> set ?entries"
      unfolding set_entries by (rule openai_in_requirements)
  qed
  have both: "?declared ` set specs = {Some ''anthropic'', Some ''openai''}
        \<longrightarrow> ?entries = [''langchain-anthropic>=0.1.0'', ''langchain-core>=0.1.0'',
                       ''langchain-openai>=0.1.0'', ''langchain>=0.1.0'', ''langgraph>=0.0.60'']"
  proof
    assume d: "?declared ` set specs = {Some ''anthropic'', Some ''openai''}"
    have "Some ''anthropic'' \<in> ?declared ` set specs"
      by (simp only: d insertI1)
    then obtain sa where sa: "sa \<in> set specs" "?declared sa = Some ''anthropic''"
      by (elim imageE) (rule that, assumption, rule sym, assumption)
    have "Some ''openai'' \<in> ?declared ` set specs"
      by (simp only: d insertI1 insertI2)
    then obtain so where so: "so \<in> set specs" "?declared so = Some ''openai''"
      by (elim imageE) (rule that, assumption, rule sym, assumption)
    have "provider_of sa = ''anthropic''"
      using sa(2) by (cases "spec_model sa") (simp_all add: provider_of_def)
    moreover have "provider_of so = ''openai''"
      using so(2) by (cases "spec_model so") (simp_all add: provider_of_def)
    ultimately have a: "''anthropic'' \<in> provider_of ` set specs"
      and o: "''openai'' \<in> provider_of ` set specs"
      using sa(1) so(1) by (metis imageI)+
    have "?R = {''langgraph>=0.0.60'', ''langchain>=0.1.0'', ''langchain-core>=0.1.0''}
        \<union> {''langchain-anthropic>=0.1.0''} \<union> {''langchain-openai>=0.1.0''}"
      by (simp only: add_model_requirements_eq a o if_True base_requirements_def)
    then show "?entries = [''langchain-anthropic>=0.1.0'', ''langchain-core>=0.1.0'',
                       ''langchain-openai>=0.1.0'', ''langchain>=0.1.0'', ''langgraph>=0.0.60'']"
      by (simp only: five_sorted_union)
  qed
  from written dist sort exact nolf base anth opai both show ?thesis
    by (intro exI [of _ ?entries] conjI)
qed

theorem requirements_manifest_witness:
  "generate_requirements_file
     [\<lparr>spec_id = None, spec_model = Some \<lparr>provider = Some ''anthropic'', tier = None\<rparr>, spec_tools = None\<rparr>,
      \<lparr>spec_id = None, spec_model = Some \<lparr>provider = Some ''openai'', tier = None\<rparr>, spec_tools = None\<rparr>]
     ''generated''
   = (''generated/requirements.txt'',
      ''langchain-anthropic>=0.1.0'' @ [CHR 0x0A] @ ''langchain-core>=0.1.0'' @ [CHR 0x0A]
        @ ''langchain-openai>=0.1.0'' @ [CHR 0x0A] @ ''langchain>=0.1.0'' @ [CHR 0x0A]
        @ ''langgraph>=0.0.60'' @ [CHR 0x0A])
   \<and> generate_requirements_file [] ''generated''
   = (''generated/requirements.txt'',
      ''langchain-core>=0.1.0'' @ [CHR 0x0A] @ ''langchain>=0.1.0'' @ [CHR 0x0A]
        @ ''langgraph>=0.0.60'' @ [CHR 0x0A])"
proof -
  let ?specs = "[\<lparr>spec_id = None, spec_model = Some \<lparr>provider = Some ''anthropic'', tier = None\<rparr>, spec_tools = None\<rparr>,
      \<lparr>spec_id = None, spec_model = Some \<lparr>provider = Some ''openai'', tier = None\<rparr>, spec_tools = None\<rparr>]"
  have declared:
    "(\<lambda>spec. case spec_model spec of None \<Rightarrow> None | Some m \<Rightarrow> model_config.provider m) ` set ?specs
       = {Some ''anthropic'', Some ''openai''}"
    by simp
  from requirements_manifest [where specs = ?specs and output_dir = "''generated''"]
  obtain entries where
    written: "generate_requirements_file ?specs ''generated''
       = (''generated'' @ ''/requirements.txt'', concat (map (\<lambda>req. req @ [CHR 0x0A]) entries))"
    and both: "(\<lambda>spec. case spec_model spec of None \<Rightarrow> None | Some m \<Rightarrow> model_config.provider m) ` set ?specs
          = {Some ''anthropic'', Some ''openai''}
        \<longrightarrow> entries = [''langchain-anthropic>=0.1.0'', ''langchain-core>=0.1.0'',
                       ''langchain-openai>=0.1.0'', ''langchain>=0.1.0'', ''langgraph>=0.0.60'']"
    by (elim exE conjE) (rule that; assumption)
  from both declared have "entries = [''langchain-anthropic>=0.1.0'', ''langchain-core>=0.1.0'',
                       ''langchain-openai>=0.1.0'', ''langchain>=0.1.0'', ''langgraph>=0.0.60'']"
    by (rule mp)
  with written have first: "generate_requirements_file ?specs ''generated''
   = (''generated/requirements.txt'',
      ''langchain-anthropic>=0.1.0'' @ [CHR 0x0A] @ ''langchain-core>=0.1.0'' @ [CHR 0x0A]
        @ ''langchain-openai>=0.1.0'' @ [CHR 0x0A] @ ''langchain>=0.1.0'' @ [CHR 0x0A]
        @ ''langgraph>=0.0.60'' @ [CHR 0x0A])"
    by simp
  from requirements_manifest [where specs = "[]" and output_dir = "''generated''"]
  obtain none where
    written0: "generate_requirements_file [] ''generated''
       = (''generated'' @ ''/requirements.txt'', concat (map (\<lambda>req. req @ [CHR 0x0A]) none))"
    and dist0: "distinct none" and sort0: "sorted none"
    and set0: "set none =
       {''langgraph>=0.0.60'', ''langchain>=0.1.0'', ''langchain-core>=0.1.0''}
       \<union> (if \<exists>spec \<in> set ([] :: agent_spec list).
                (case spec_model spec of None \<Rightarrow> None | Some m \<Rightarrow> model_config.provider m)
                  \<in> {None, Some ''anthropic''}
           then {''langchain-anthropic>=0.1.0''} else {})
       \<union> (if \<exists>spec \<in> set ([] :: agent_spec list).
                (case spec_model spec of None \<Rightarrow> None | Some m \<Rightarrow> model_config.provider m)
                  = Some ''openai''
           then {''langchain-openai>=0.1.0''} else {})"
    by (elim exE conjE) (rule that; assumption)
  from set0 have "set none = {''langgraph>=0.0.60'', ''langchain>=0.1.0'', ''langchain-core>=0.1.0''}"
    by simp
  then have "sorted_list_of_set (set none)
      = [''langchain-core>=0.1.0'', ''langchain>=0.1.0'', ''langgraph>=0.0.60'']"
    by (simp only: three_sorted)
  with dist0 sort0 have "none = [''langchain-core>=0.1.0'', ''langchain>=0.1.0'', ''langgraph>=0.0.60'']"
    by (simp only: sorted_list_of_set.idem_if_sorted_distinct)
  with written0 have second: "generate_requirements_file [] ''generated''
   = (''generated/requirements.txt'',
      ''langchain-core>=0.1.0'' @ [CHR 0x0A] @ ''langchain>=0.1.0'' @ [CHR 0x0A]
        @ ''langgraph>=0.0.60'' @ [CHR 0x0A])"
    by simp
  from first second show ?thesis by (rule conjI)
qed




end
